theory Spec2Isabelle
  imports Complex_Main "HOL-Library.Log_Nat"
begin

section \<open>JavaScript strings\<close>

text \<open>
  A JavaScript string is a sequence of UTF-16 code units. The handlers compare user text
  with a Cyrillic token, so code units are natural numbers rather than 8-bit characters.
  \<open>ascii\<close> embeds an ASCII literal.
\<close>

type_synonym jsstring = "nat list"

definition ascii :: "string \<Rightarrow> jsstring" where
  "ascii s = map of_char s"

text \<open>White space and line terminators of ECMAScript (what \<open>trim\<close>, \<open>\s\<close> and the
  numeric parsers skip).\<close>

definition is_ws :: "nat \<Rightarrow> bool" where
  "is_ws c \<longleftrightarrow>
     c \<in> set [9, 10, 11, 12, 13, 32, 160, 5760, 8232, 8233, 8239, 8287, 12288, 65279]
     \<or> (8192 \<le> c \<and> c \<le> 8202)"

definition trimStart :: "jsstring \<Rightarrow> jsstring" where
  "trimStart s = dropWhile is_ws s"

definition trim :: "jsstring \<Rightarrow> jsstring" where
  "trim s = rev (dropWhile is_ws (rev (dropWhile is_ws s)))"

text \<open>
  \<open>String.prototype.toLowerCase\<close>, on the Basic Latin and Cyrillic capitals; other code
  units are left as they are. No code unit outside these capitals has a letter of
  \<open>/cancel\<close> or of the Cyrillic confirmation word in its lower-case form, and these two
  words are all that the handlers compare a lower-cased text with, so both comparisons
  come out as in JavaScript.
\<close>

definition lower_unit :: "nat \<Rightarrow> nat" where
  "lower_unit c =
     (if 65 \<le> c \<and> c \<le> 90 then c + 32
      else if 1040 \<le> c \<and> c \<le> 1071 then c + 32
      else if 1024 \<le> c \<and> c \<le> 1039 then c + 80
      else c)"

definition toLowerCase :: "jsstring \<Rightarrow> jsstring" where
  "toLowerCase s = map lower_unit s"

text \<open>\<open>s.split(/\s+/)\<close>: the pieces between maximal runs of white space; a run at either
  end leaves an empty piece there, and the empty string gives one empty piece.\<close>

function split_ws_from :: "jsstring \<Rightarrow> jsstring \<Rightarrow> jsstring list" where
  "split_ws_from cur [] = [rev cur]"
| "split_ws_from cur (c # cs) =
     (if is_ws c then rev cur # split_ws_from [] (dropWhile is_ws cs)
      else split_ws_from (c # cur) cs)"
  by pat_completeness auto
termination
  by (relation "measure (\<lambda>(cur, s). length s)")
     (auto simp: less_Suc_eq_le length_dropWhile_le)

definition split_ws :: "jsstring \<Rightarrow> jsstring list" where
  "split_ws s = split_ws_from [] s"

section \<open>JavaScript numbers\<close>

text \<open>
  A Number is an IEEE 754 binary64 value: NaN, an infinity, negative zero, or a finite
  value, kept as the rational it denotes (\<open>Fin 0\<close> is positive zero). Every operation
  that produces a Number rounds to nearest, ties to even.
\<close>

datatype jsnum = NaN | PosInf | NegInf | NegZero | Fin rat

definition pow2 :: "int \<Rightarrow> rat" where
  "pow2 e = (if 0 \<le> e then 2 ^ nat e else 1 / 2 ^ nat (- e))"

definition pow10 :: "int \<Rightarrow> rat" where
  "pow10 e = (if 0 \<le> e then 10 ^ nat e else 1 / 10 ^ nat (- e))"

text \<open>For \<open>q > 0\<close>, the exponent \<open>e\<close> with \<open>2 ^ e \<le> q < 2 ^ (e + 1)\<close>.\<close>

definition floor_log2 :: "rat \<Rightarrow> int" where
  "floor_log2 q = (if 1 \<le> q then bitlen \<lfloor>q\<rfloor> - 1 else - bitlen (\<lceil>1 / q\<rceil> - 1))"

definition round_half_even :: "rat \<Rightarrow> int" where
  "round_half_even x =
     (let f = \<lfloor>x\<rfloor>; d = x - of_int f
      in if d < 1 / 2 then f else if 1 / 2 < d then f + 1
         else if even f then f else f + 1)"

text \<open>Rounding a magnitude \<open>q \<ge> 0\<close> to binary64: 53 significant bits, least exponent
  \<open>-1022\<close> (subnormals are multiples of \<open>2 ^ -1074\<close>), \<open>None\<close> on overflow.\<close>

definition round_mag :: "rat \<Rightarrow> rat option" where
  "round_mag q =
     (if q = 0 then Some 0
      else let e = max (floor_log2 q) (- 1022);
               u = pow2 (e - 52);
               r = of_int (round_half_even (q / u)) * u
           in if pow2 1024 \<le> r then None else Some r)"

definition signed_inf :: "bool \<Rightarrow> jsnum" where
  "signed_inf neg = (if neg then NegInf else PosInf)"

definition signed_zero :: "bool \<Rightarrow> jsnum" where
  "signed_zero neg = (if neg then NegZero else Fin 0)"

definition to_number :: "bool \<Rightarrow> rat \<Rightarrow> jsnum" where
  "to_number neg q =
     (case round_mag q of
        None \<Rightarrow> signed_inf neg
      | Some r \<Rightarrow> if r = 0 then signed_zero neg else Fin (if neg then - r else r))"

definition isNaN :: "jsnum \<Rightarrow> bool" where
  "isNaN x \<longleftrightarrow> x = NaN"

fun num_key :: "jsnum \<Rightarrow> int \<times> rat" where
  "num_key NegInf = (- 1, 0)"
| "num_key PosInf = (1, 0)"
| "num_key NegZero = (0, 0)"
| "num_key (Fin q) = (0, q)"
| "num_key NaN = (0, 0)"

text \<open>The relational operators: every comparison with NaN is false, and the two zeros
  are equal.\<close>

definition js_lt :: "jsnum \<Rightarrow> jsnum \<Rightarrow> bool" where
  "js_lt a b \<longleftrightarrow> a \<noteq> NaN \<and> b \<noteq> NaN \<and>
     (fst (num_key a) < fst (num_key b)
      \<or> fst (num_key a) = fst (num_key b) \<and> snd (num_key a) < snd (num_key b))"

definition js_gt :: "jsnum \<Rightarrow> jsnum \<Rightarrow> bool" where
  "js_gt a b \<longleftrightarrow> js_lt b a"

definition js_le :: "jsnum \<Rightarrow> jsnum \<Rightarrow> bool" where
  "js_le a b \<longleftrightarrow> a \<noteq> NaN \<and> b \<noteq> NaN \<and> \<not> js_lt b a"

definition js_ge :: "jsnum \<Rightarrow> jsnum \<Rightarrow> bool" where
  "js_ge a b \<longleftrightarrow> js_le b a"

definition is_zero :: "jsnum \<Rightarrow> bool" where
  "is_zero x \<longleftrightarrow> x = NegZero \<or> x = Fin 0"

definition is_inf :: "jsnum \<Rightarrow> bool" where
  "is_inf x \<longleftrightarrow> x = PosInf \<or> x = NegInf"

definition sign_neg :: "jsnum \<Rightarrow> bool" where
  "sign_neg x = (case x of NegInf \<Rightarrow> True | NegZero \<Rightarrow> True | Fin q \<Rightarrow> q < 0 | _ \<Rightarrow> False)"

definition magnitude :: "jsnum \<Rightarrow> rat" where
  "magnitude x = (case x of Fin q \<Rightarrow> \<bar>q\<bar> | _ \<Rightarrow> 0)"

text \<open>The \<open>/\<close> operator on Numbers.\<close>

definition js_div :: "jsnum \<Rightarrow> jsnum \<Rightarrow> jsnum" where
  "js_div a b =
     (if a = NaN \<or> b = NaN then NaN
      else let neg = (sign_neg a \<noteq> sign_neg b)
           in if is_inf a then (if is_inf b then NaN else signed_inf neg)
              else if is_inf b then signed_zero neg
              else if is_zero b then (if is_zero a then NaN else signed_inf neg)
              else to_number neg (magnitude a / magnitude b))"

subsection \<open>parseFloat and parseInt\<close>

definition is_digit :: "nat \<Rightarrow> bool" where
  "is_digit c \<longleftrightarrow> 48 \<le> c \<and> c \<le> 57"

definition is_hex_digit :: "nat \<Rightarrow> bool" where
  "is_hex_digit c \<longleftrightarrow> is_digit c \<or> (65 \<le> c \<and> c \<le> 70) \<or> (97 \<le> c \<and> c \<le> 102)"

definition hex_digit_value :: "nat \<Rightarrow> nat" where
  "hex_digit_value c = (if is_digit c then c - 48 else if c \<le> 70 then c - 55 else c - 87)"

definition digits_value :: "jsstring \<Rightarrow> int" where
  "digits_value ds = foldl (\<lambda>a c. 10 * a + (int c - 48)) 0 ds"

definition hex_value :: "jsstring \<Rightarrow> int" where
  "hex_value ds = foldl (\<lambda>a c. 16 * a + int (hex_digit_value c)) 0 ds"

definition is_sign :: "nat \<Rightarrow> bool" where
  "is_sign c \<longleftrightarrow> c = 43 \<or> c = 45"

definition has_minus :: "jsstring \<Rightarrow> bool" where
  "has_minus t \<longleftrightarrow> (case t of [] \<Rightarrow> False | c # _ \<Rightarrow> c = 45)"

definition strip_sign :: "jsstring \<Rightarrow> jsstring" where
  "strip_sign t = (case t of [] \<Rightarrow> [] | c # cs \<Rightarrow> if is_sign c then cs else t)"

text \<open>The exponent part \<open>(e|E) [+-]? digits\<close> at the head of \<open>r\<close>; when it is not there,
  or has no digit, the literal ends before it and the exponent is 0.\<close>

definition exponent_part :: "jsstring \<Rightarrow> int" where
  "exponent_part r =
     (case r of
        [] \<Rightarrow> 0
      | c # cs \<Rightarrow>
          if c = 101 \<or> c = 69
          then let ds = takeWhile is_digit (strip_sign cs)
               in if ds = [] then 0
                  else if has_minus cs then - digits_value ds else digits_value ds
          else 0)"

text \<open>What a parser reads at the head of a string: nothing, a signed \<open>Infinity\<close>, or a
  sign, the digits as an integer and a power of ten.\<close>

datatype numeric_literal =
    NoLiteral
  | InfinityLiteral bool
  | DecimalLiteral bool int int

definition literal_value :: "numeric_literal \<Rightarrow> jsnum" where
  "literal_value l =
     (case l of
        NoLiteral \<Rightarrow> NaN
      | InfinityLiteral neg \<Rightarrow> signed_inf neg
      | DecimalLiteral neg m k \<Rightarrow> to_number neg (of_int m * pow10 k))"

text \<open>
  \<open>parseFloat\<close>: skip leading white space, take the longest prefix that is a
  \<open>StrDecimalLiteral\<close> (a sign, then \<open>Infinity\<close> or digits with an optional fraction and
  exponent), and round its value; NaN when there is no such prefix. What follows the
  prefix is ignored.
\<close>

definition scan_float :: "jsstring \<Rightarrow> numeric_literal" where
  "scan_float s =
     (let t = trimStart s; neg = has_minus t; u = strip_sign t
      in if take 8 u = ascii ''Infinity'' then InfinityLiteral neg
         else let ip = takeWhile is_digit u;
                  r1 = dropWhile is_digit u;
                  has_dot = (case r1 of [] \<Rightarrow> False | c # _ \<Rightarrow> c = 46);
                  fp = (if has_dot then takeWhile is_digit (tl r1) else []);
                  r2 = (if has_dot then dropWhile is_digit (tl r1) else r1)
              in if ip = [] \<and> fp = [] then NoLiteral
                 else DecimalLiteral neg (digits_value (ip @ fp))
                        (exponent_part r2 - int (length fp)))"

definition parseFloat :: "jsstring \<Rightarrow> jsnum" where
  "parseFloat s = literal_value (scan_float s)"

text \<open>
  \<open>parseInt\<close> with no radix: skip leading white space, a sign, then \<open>0x\<close>/\<open>0X\<close> selects
  radix 16, otherwise radix 10; the longest prefix of digits of that radix is the value,
  NaN when it is empty. What follows the digits (a fraction, letters) is ignored.
\<close>

definition scan_int :: "jsstring \<Rightarrow> numeric_literal" where
  "scan_int s =
     (let t = trimStart s; neg = has_minus t; u = strip_sign t;
          hex = (take 2 u = ascii ''0x'' \<or> take 2 u = ascii ''0X'');
          v = (if hex then drop 2 u else u);
          z = takeWhile (if hex then is_hex_digit else is_digit) v
      in if z = [] then NoLiteral
         else DecimalLiteral neg (if hex then hex_value z else digits_value z) 0)"

definition parseInt :: "jsstring \<Rightarrow> jsnum" where
  "parseInt s = literal_value (scan_int s)"

section \<open>Parameter validation (utils/parameterUtils.js)\<close>

text \<open>The error of a failed validation is its message; each constructor stands for one
  message of the source, \<open>ParameterCount n\<close> for the one that reports \<open>n\<close> parameters
  where 7 or 8 are expected.\<close>

datatype validation_error =
    ParameterCount nat
  | EuConcentration
  | PhenanthrolineConcentration
  | LigandConcentration
  | LigandType
  | PhBsa
  | AdditionVolume
  | AdditionTime
  | AdditionRate

datatype validation = Valid | Invalid validation_error

record parameter_record =
  euConcentration :: jsnum
  phenanthrolineConcentration :: jsnum
  ligandConcentration :: jsnum
  ligandType :: jsnum
  phBsa :: jsnum
  additionVolume :: jsnum
  additionTime :: jsnum
  additionRate :: jsnum

definition validateParameters :: "jsstring list \<Rightarrow> validation" where
  "validateParameters paramArray =
     (if length paramArray < 7 \<or> length paramArray > 8
      then Invalid (ParameterCount (length paramArray))
      else
        let eu = parseFloat (paramArray ! 0);
            phen = parseFloat (paramArray ! 1);
            lig = parseFloat (paramArray ! 2);
            ltype = parseInt (paramArray ! 3);
            ph = parseInt (paramArray ! 4);
            vol = parseFloat (paramArray ! 5);
            time = parseFloat (paramArray ! 6);
            rate = (if length paramArray = 8 then parseFloat (paramArray ! 7)
                    else js_div vol time)
        in if isNaN eu \<or> js_lt eu (Fin 0) then Invalid EuConcentration
           else if isNaN phen \<or> js_lt phen (Fin 0) then Invalid PhenanthrolineConcentration
           else if isNaN lig \<or> js_lt lig (Fin 0) then Invalid LigandConcentration
           else if isNaN ltype \<or> js_lt ltype (Fin 0) \<or> js_gt ltype (Fin 3)
             then Invalid LigandType
           else if isNaN ph \<or> js_lt ph (Fin 7) \<or> js_gt ph (Fin 11) then Invalid PhBsa
           else if isNaN vol \<or> js_le vol (Fin 0) then Invalid AdditionVolume
           else if isNaN time \<or> js_le time (Fin 0) then Invalid AdditionTime
           else if isNaN rate \<or> js_le rate (Fin 0) then Invalid AdditionRate
           else Valid)"

text \<open>Reading an index past the end of a JavaScript array gives \<open>undefined\<close>, which both
  parsers turn into NaN.\<close>

definition param_at :: "jsstring list \<Rightarrow> nat \<Rightarrow> jsstring" where
  "param_at paramArray i = (if i < length paramArray then paramArray ! i else ascii ''undefined'')"

definition convertParametersToObject :: "jsstring list \<Rightarrow> parameter_record" where
  "convertParametersToObject paramArray =
     (let vol = parseFloat (param_at paramArray 5);
          time = parseFloat (param_at paramArray 6)
      in \<lparr> euConcentration = parseFloat (param_at paramArray 0),
           phenanthrolineConcentration = parseFloat (param_at paramArray 1),
           ligandConcentration = parseFloat (param_at paramArray 2),
           ligandType = parseInt (param_at paramArray 3),
           phBsa = parseInt (param_at paramArray 4),
           additionVolume = vol,
           additionTime = time,
           additionRate = (if length paramArray = 8 then parseFloat (param_at paramArray 7)
                           else js_div vol time) \<rparr>)"

section \<open>The prediction gateway (ml/predictionService.js)\<close>

text \<open>A value produced by \<open>JSON.parse\<close>; an object is the list of its properties, each
  key once.\<close>

datatype json =
    JNull
  | JBool bool
  | JNumber jsnum
  | JString jsstring
  | JArray "json list"
  | JObject "(jsstring \<times> json) list"

text \<open>Reading a named property of a value that is not \<open>null\<close>; \<open>None\<close> is \<open>undefined\<close>.
  The source reads only \<open>error\<close>, \<open>size\<close> and \<open>pdi\<close>, which no string, array, number or
  boolean has.\<close>

definition property :: "json \<Rightarrow> jsstring \<Rightarrow> json option" where
  "property v k = (case v of JObject kvs \<Rightarrow> map_of kvs k | _ \<Rightarrow> None)"

definition truthy :: "json \<Rightarrow> bool" where
  "truthy v =
     (case v of
        JNull \<Rightarrow> False
      | JBool b \<Rightarrow> b
      | JNumber n \<Rightarrow> \<not> (isNaN n \<or> is_zero n)
      | JString s \<Rightarrow> s \<noteq> []
      | JArray _ \<Rightarrow> True
      | JObject _ \<Rightarrow> True)"

text \<open>
  Converting a parsed value to a string (in a template literal) throws a TypeError for an
  object with an own \<open>toString\<close> property: that property is not callable, and \<open>valueOf\<close>
  gives back the object itself. Every other object becomes \<open>[object Object]\<close>, and an array
  is joined from the strings of its elements, so it throws when one of them does.
  Converting to a number (an operand of \<open>*\<close>, \<open>-\<close> or \<open>/\<close>) goes through the same string for
  objects and arrays; \<open>undefined\<close> converts to NaN.
\<close>

fun stringifiable :: "json \<Rightarrow> bool" where
  "stringifiable (JArray xs) = list_all stringifiable xs"
| "stringifiable (JObject kvs) = (map_of kvs (ascii ''toString'') = None)"
| "stringifiable v = True"

definition convertible :: "json option \<Rightarrow> bool" where
  "convertible v = (case v of None \<Rightarrow> True | Some x \<Rightarrow> stringifiable x)"

text \<open>
  What the spawned predictor does, as the gateway sees it, whichever comes first: the
  15 second timer fires; the process closes with an exit code (none when a signal killed
  it), with the result of \<open>JSON.parse\<close> on its standard output (\<open>None\<close> when that throws)
  and its standard error; or spawning fails.
\<close>

datatype process_outcome =
    TimerFired
  | Closed "int option" "json option" jsstring
  | SpawnFailed jsstring

text \<open>The rejections of the gateway are plain \<open>Error\<close> objects told apart by their
  message: \<open>Prediction timeout\<close>, the exit-code message with the captured standard error,
  the value of the response's \<open>error\<close> property, \<open>Invalid prediction response\<close>, and the
  error of the failed spawn. A truthy \<open>error\<close> property is first written to the log inside
  the \<open>try\<close> block; when it cannot be converted to a string, that throws and the \<open>catch\<close>
  rejects with \<open>Invalid prediction response\<close>.\<close>

datatype gateway_error =
    PredictionTimeout
  | ProcessExit "int option" jsstring
  | ModelError json
  | InvalidResponse
  | ProcessError jsstring

definition makeModelPrediction :: "process_outcome \<Rightarrow> gateway_error + json" where
  "makeModelPrediction outcome =
     (case outcome of
        TimerFired \<Rightarrow> Inl PredictionTimeout
      | SpawnFailed err \<Rightarrow> Inl (ProcessError err)
      | Closed code parsed errorOutput \<Rightarrow>
          if code \<noteq> Some 0 then Inl (ProcessExit code errorOutput)
          else (case parsed of
                  None \<Rightarrow> Inl InvalidResponse
                | Some JNull \<Rightarrow> Inl InvalidResponse
                | Some result \<Rightarrow>
                    (case property result (ascii ''error'') of
                       None \<Rightarrow> Inr result
                     | Some e \<Rightarrow>
                         if truthy e
                         then (if stringifiable e then Inl (ModelError e)
                               else Inl InvalidResponse)
                         else Inr result)))"

section \<open>Sessions, experiments and replies\<close>

record message =
  chat_id :: int
  from_id :: int
  msg_text :: "jsstring option"

datatype prediction_session = AwaitingParameters

datatype add_result_state =
    AwaitingOverwriteConfirmation
  | AwaitingActualSize
  | AwaitingActualPdI

text \<open>The object kept in \<open>addResultState\<close>: \<open>state\<close>, \<open>experimentId\<close> and, once entered,
  \<open>actualSize\<close>.\<close>

record add_result_session =
  state :: add_result_state
  session_experimentId :: jsstring
  session_actualSize :: "jsnum option"

text \<open>A row of the experiments table. The predicted values are whatever the prediction
  carried under \<open>size\<close> and \<open>pdi\<close>; the actual values are \<open>null\<close> until entered.\<close>

record experiment_row =
  experimentId :: jsstring
  userId :: int
  parameters :: parameter_record
  predictedSize :: "json option"
  predictedPdI :: "json option"
  actualSize :: "jsnum option"
  actualPdI :: "jsnum option"

text \<open>The messages of the two handlers, one constructor for each message template of
  the source; \<open>PredictionResultReply\<close> replaces the processing message by an edit.\<close>

datatype reply =
    PredictionInstructions
  | StartPredictionFailed
  | PredictionCancelled
  | ParameterErrorReply validation_error
  | ProcessingReply
  | PredictionResultReply parameter_record jsnum jsnum jsstring
  | PredictionFailedReply
  | ExperimentNotFound
  | OverwritePrompt
  | ActualSizePrompt experiment_row
  | UpdateSizePrompt experiment_row
  | OperationCancelled
  | InvalidSizeReply
  | ActualPdIPrompt jsnum
  | InvalidPdIReply
  | ResultsSaved experiment_row
  | AddResultFailed
  | StartAddResultFailed

record world =
  predictionState :: "int \<Rightarrow> prediction_session option"
  addResultState :: "int \<Rightarrow> add_result_session option"
  experiments :: "jsstring \<Rightarrow> experiment_row option"

text \<open>
  What the collaborators do during one handler call: whether the Telegram API delivers a
  message (when it does not, the awaited call throws), what the predictor process does,
  whether the queries of the experiments table fail, the identifier a created row gets
  (\<open>None\<close> when creation fails), and whether \<open>formatExperimentForDisplay\<close> can format a
  row (it throws on a row whose numeric fields are missing).
\<close>

record env =
  delivers :: "reply \<Rightarrow> bool"
  predictor :: "parameter_record \<Rightarrow> process_outcome"
  create_result :: "jsstring option"
  find_fails :: bool
  save_fails :: bool
  displayable :: "experiment_row \<Rightarrow> bool"

text \<open>The result of a handler call: the messages delivered, the state it leaves, and
  whether the call ended with an exception that nothing caught.\<close>

record step =
  sent :: "(int \<times> reply) list"
  final :: world
  rejected :: bool

definition idle :: "world \<Rightarrow> step" where
  "idle w = \<lparr> sent = [], final = w, rejected = False \<rparr>"

definition deliver :: "int \<Rightarrow> reply \<Rightarrow> (int \<times> reply) list \<Rightarrow> world \<Rightarrow> step" where
  "deliver chatId r out w = \<lparr> sent = out @ [(chatId, r)], final = w, rejected = False \<rparr>"

text \<open>The \<open>catch\<close> block of a response handler: send the generic failure message, then
  delete the user's session. When that message is not delivered either, the exception
  leaves the handler and the session is not deleted.\<close>

definition recover ::
  "env \<Rightarrow> int \<Rightarrow> reply \<Rightarrow> (world \<Rightarrow> world) \<Rightarrow> (int \<times> reply) list \<Rightarrow> world \<Rightarrow> step" where
  "recover e chatId generic clear out w =
     (if delivers e generic then deliver chatId generic out (clear w)
      else \<lparr> sent = out, final = w, rejected = True \<rparr>)"

definition findOne :: "world \<Rightarrow> jsstring \<Rightarrow> int \<Rightarrow> experiment_row option" where
  "findOne w eid uid =
     (case experiments w eid of
        None \<Rightarrow> None
      | Some x \<Rightarrow> if experimentId x = eid \<and> userId x = uid then Some x else None)"

definition is_number :: "json option \<Rightarrow> bool" where
  "is_number v \<longleftrightarrow> (case v of Some (JNumber _) \<Rightarrow> True | _ \<Rightarrow> False)"

section \<open>The prediction flow (bot/handlers/predictionHandler.js)\<close>

definition clear_prediction :: "int \<Rightarrow> world \<Rightarrow> world" where
  "clear_prediction uid w = w\<lparr> predictionState := (predictionState w)(uid := None) \<rparr>"

definition startPrediction :: "env \<Rightarrow> message \<Rightarrow> world \<Rightarrow> step" where
  "startPrediction e msg w =
     (let chatId = chat_id msg; uid = from_id msg; w0 = clear_prediction uid w
      in if delivers e PredictionInstructions
         then deliver chatId PredictionInstructions []
                (w0\<lparr> predictionState := (predictionState w0)(uid \<mapsto> AwaitingParameters) \<rparr>)
         else if delivers e StartPredictionFailed
         then deliver chatId StartPredictionFailed [] w0
         else \<lparr> sent = [], final = w0, rejected = True \<rparr>)"

definition tokens :: "jsstring \<Rightarrow> jsstring list" where
  "tokens t = map trim (split_ws (trim t))"

definition handlePredictionResponse :: "env \<Rightarrow> message \<Rightarrow> world \<Rightarrow> step" where
  "handlePredictionResponse e msg w =
     (case msg_text msg of
        None \<Rightarrow> idle w
      | Some t \<Rightarrow>
          if t = [] then idle w
          else
            let chatId = chat_id msg; uid = from_id msg;
                catch = recover e chatId PredictionFailedReply (clear_prediction uid)
            in case predictionState w uid of
                 None \<Rightarrow> idle w
               | Some AwaitingParameters \<Rightarrow>
                   if toLowerCase t = ascii ''/cancel''
                   then (if delivers e PredictionCancelled
                         then deliver chatId PredictionCancelled [] (clear_prediction uid w)
                         else catch [] (clear_prediction uid w))
                   else
                     let paramArray = tokens t
                     in case validateParameters paramArray of
                          Invalid err \<Rightarrow>
                            if delivers e (ParameterErrorReply err)
                            then deliver chatId (ParameterErrorReply err) [] w
                            else catch [] w
                        | Valid \<Rightarrow>
                            let ps = convertParametersToObject paramArray
                            in if \<not> delivers e ProcessingReply then catch [] w
                               else
                                 let out = [(chatId, ProcessingReply)]
                                 in case makeModelPrediction (predictor e ps) of
                                      Inl failure \<Rightarrow> catch out w
                                    | Inr JNull \<Rightarrow> catch out w
                                    | Inr prediction \<Rightarrow>
                                        (case create_result e of
                                           None \<Rightarrow> catch out w
                                         | Some eid \<Rightarrow>
                                             let size = property prediction (ascii ''size'');
                                                 pdi = property prediction (ascii ''pdi'');
                                                 row = \<lparr> experimentId = eid, userId = uid,
                                                         parameters = ps,
                                                         predictedSize = size,
                                                         predictedPdI = pdi,
                                                         actualSize = None,
                                                         actualPdI = None \<rparr>;
                                                 w1 = w\<lparr> experiments :=
                                                           (experiments w)(eid \<mapsto> row) \<rparr>
                                             in case (size, pdi) of
                                                  (Some (JNumber sz), Some (JNumber pd)) \<Rightarrow>
                                                    let r = PredictionResultReply ps sz pd eid
                                                    in if convertible (property prediction
                                                            (ascii ''sizeConfidence''))
                                                          \<and> convertible (property prediction
                                                            (ascii ''pdiConfidence''))
                                                          \<and> delivers e r
                                                       then deliver chatId r out
                                                              (clear_prediction uid w1)
                                                       else catch out w1
                                                | _ \<Rightarrow> catch out w1))"

section \<open>The result-entry flow (bot/handlers/experimentHandler.js)\<close>

definition clear_add_result :: "int \<Rightarrow> world \<Rightarrow> world" where
  "clear_add_result uid w = w\<lparr> addResultState := (addResultState w)(uid := None) \<rparr>"

definition set_add_result :: "int \<Rightarrow> add_result_session \<Rightarrow> world \<Rightarrow> world" where
  "set_add_result uid s w = w\<lparr> addResultState := (addResultState w)(uid \<mapsto> s) \<rparr>"

text \<open>The confirmation word the overwrite prompt asks for, in lower case: Cyrillic small
  letters de (U+0434) and a (U+0430).\<close>

definition confirm_word :: jsstring where
  "confirm_word = [1076, 1072]"

definition startAddResult :: "env \<Rightarrow> message \<Rightarrow> jsstring \<Rightarrow> world \<Rightarrow> step" where
  "startAddResult e msg eid w =
     (let chatId = chat_id msg; uid = from_id msg;
          catch = (\<lambda>out. if delivers e StartAddResultFailed
                         then deliver chatId StartAddResultFailed out w
                         else \<lparr> sent = out, final = w, rejected = True \<rparr>)
      in if find_fails e then catch []
         else case findOne w eid uid of
                None \<Rightarrow>
                  if delivers e ExperimentNotFound then deliver chatId ExperimentNotFound [] w
                  else catch []
              | Some x \<Rightarrow>
                  if actualSize x \<noteq> None \<and> actualPdI x \<noteq> None
                  then (if delivers e OverwritePrompt
                        then deliver chatId OverwritePrompt []
                               (set_add_result uid
                                  \<lparr> state = AwaitingOverwriteConfirmation,
                                    session_experimentId = eid,
                                    session_actualSize = None \<rparr> w)
                        else catch [])
                  else if \<not> displayable e x then catch []
                  else if delivers e (ActualSizePrompt x)
                  then deliver chatId (ActualSizePrompt x) []
                         (set_add_result uid
                            \<lparr> state = AwaitingActualSize,
                              session_experimentId = eid,
                              session_actualSize = None \<rparr> w)
                  else catch [])"

definition handleAddResultResponse :: "env \<Rightarrow> message \<Rightarrow> world \<Rightarrow> step" where
  "handleAddResultResponse e msg w =
     (case msg_text msg of
        None \<Rightarrow> idle w
      | Some t \<Rightarrow>
          if t = [] then idle w
          else
            let chatId = chat_id msg; uid = from_id msg;
                catch = recover e chatId AddResultFailed (clear_add_result uid)
            in case addResultState w uid of
                 None \<Rightarrow> idle w
               | Some userState \<Rightarrow>
                   if toLowerCase t = ascii ''/cancel''
                   then (if delivers e OperationCancelled
                         then deliver chatId OperationCancelled [] (clear_add_result uid w)
                         else catch [] (clear_add_result uid w))
                   else
                     (case state userState of
                        AwaitingOverwriteConfirmation \<Rightarrow>
                          if toLowerCase t = confirm_word
                          then (if find_fails e then catch [] w
                                else case findOne w (session_experimentId userState) uid of
                                       None \<Rightarrow> catch [] w
                                     | Some x \<Rightarrow>
                                         if \<not> displayable e x then catch [] w
                                         else if delivers e (UpdateSizePrompt x)
                                         then deliver chatId (UpdateSizePrompt x) []
                                                (set_add_result uid
                                                   (userState\<lparr> state := AwaitingActualSize \<rparr>) w)
                                         else catch [] w)
                          else (if delivers e OperationCancelled
                                then deliver chatId OperationCancelled []
                                       (clear_add_result uid w)
                                else catch [] (clear_add_result uid w))
                      | AwaitingActualSize \<Rightarrow>
                          let size = parseFloat (trim t)
                          in if isNaN size \<or> js_le size (Fin 0)
                             then (if delivers e InvalidSizeReply
                                   then deliver chatId InvalidSizeReply [] w
                                   else catch [] w)
                             else
                               let w1 = set_add_result uid
                                          (userState\<lparr> session_actualSize := Some size,
                                                      state := AwaitingActualPdI \<rparr>) w
                               in if delivers e (ActualPdIPrompt size)
                                  then deliver chatId (ActualPdIPrompt size) [] w1
                                  else catch [] w1
                      | AwaitingActualPdI \<Rightarrow>
                          let pdi = parseFloat (trim t)
                          in if isNaN pdi \<or> js_lt pdi (Fin 0)
                             then (if delivers e InvalidPdIReply
                                   then deliver chatId InvalidPdIReply [] w
                                   else catch [] w)
                             else if find_fails e then catch [] w
                             else
                               (case findOne w (session_experimentId userState) uid of
                                  None \<Rightarrow> catch [] w
                                | Some x \<Rightarrow>
                                    let x' = x\<lparr> actualSize := session_actualSize userState,
                                               actualPdI := Some pdi \<rparr>
                                    in if \<not> convertible (predictedSize x)
                                          \<or> \<not> convertible (predictedPdI x)
                                          \<or> save_fails e
                                       then catch [] w
                                       else
                                         let w1 = clear_add_result uid
                                                    (w\<lparr> experiments :=
                                                          (experiments w)(experimentId x \<mapsto> x') \<rparr>)
                                         in if is_number (predictedSize x)
                                               \<and> is_number (predictedPdI x)
                                               \<and> session_actualSize userState \<noteq> None
                                               \<and> delivers e (ResultsSaved x')
                                            then deliver chatId (ResultsSaved x') [] w1
                                            else catch [] w1)))"

section \<open>The router (bot/index.js)\<close>

text \<open>
  The \<open>message\<close> listener hands a message to the two response handlers, one after the
  other, only when it has a text that does not begin with a slash. No command is
  registered for \<open>/cancel\<close>, so for such a text this listener is all that runs.
\<close>

definition free_text :: "jsstring \<Rightarrow> bool" where
  "free_text t \<longleftrightarrow> (case t of [] \<Rightarrow> False | c # _ \<Rightarrow> c \<noteq> 47)"

definition on_message :: "env \<Rightarrow> message \<Rightarrow> world \<Rightarrow> step" where
  "on_message e msg w =
     (case msg_text msg of
        None \<Rightarrow> idle w
      | Some t \<Rightarrow>
          if free_text t
          then let r1 = handlePredictionResponse e msg w
               in if rejected r1 then r1
                  else let r2 = handleAddResultResponse e msg (final r1)
                       in \<lparr> sent = sent r1 @ sent r2, final = final r2,
                            rejected = rejected r2 \<rparr>
          else idle w)"

section \<open>The range constraints of a parameter record\<close>

text \<open>
  The constraints the specification's data model puts on the eight fields: the three
  concentrations are at least 0, the ligand type is an integer from 0 to 3, the pH is an
  integer from 7 to 11, and volume, time and rate are greater than 0. (A comparison with
  NaN is false, so a field that satisfies its constraint is a number.)
\<close>

definition is_integral :: "jsnum \<Rightarrow> bool" where
  "is_integral x \<longleftrightarrow> (case x of Fin q \<Rightarrow> of_int \<lfloor>q\<rfloor> = q | NegZero \<Rightarrow> True | _ \<Rightarrow> False)"

definition within_ranges :: "parameter_record \<Rightarrow> bool" where
  "within_ranges r \<longleftrightarrow>
     js_ge (euConcentration r) (Fin 0)
     \<and> js_ge (phenanthrolineConcentration r) (Fin 0)
     \<and> js_ge (ligandConcentration r) (Fin 0)
     \<and> is_integral (ligandType r) \<and> js_ge (ligandType r) (Fin 0) \<and> js_le (ligandType r) (Fin 3)
     \<and> is_integral (phBsa r) \<and> js_ge (phBsa r) (Fin 7) \<and> js_le (phBsa r) (Fin 11)
     \<and> js_gt (additionVolume r) (Fin 0)
     \<and> js_gt (additionTime r) (Fin 0)
     \<and> js_gt (additionRate r) (Fin 0)"

section \<open>Example inputs\<close>

text \<open>The two example lines of the instructions message, and a line whose pH token is
  not an integer.\<close>

definition example7 :: "jsstring list" where
  "example7 = map ascii [''1'', ''1'', ''3'', ''2'', ''11'', ''500'', ''30'']"

definition example8 :: "jsstring list" where
  "example8 = map ascii [''2'', ''2'', ''6'', ''1'', ''9'', ''340'', ''34'', ''10'']"

definition fractional_ph :: "jsstring list" where
  "fractional_ph = map ascii [''1'', ''1'', ''3'', ''2'', ''9.5'', ''500'', ''30'']"

text \<open>Responses of the predictor with an \<open>error\<close> property: an empty message, a
  message, and an object that cannot be converted to a string,
  \<open>{"error": {"toString": 1}}\<close>.\<close>

definition empty_error_response :: json where
  "empty_error_response = JObject [(ascii ''error'', JString [])]"

definition model_error_response :: json where
  "model_error_response = JObject [(ascii ''error'', JString (ascii ''no model''))]"

definition unprintable_error :: json where
  "unprintable_error = JObject [(ascii ''toString'', JNumber (Fin 1))]"

definition unprintable_error_response :: json where
  "unprintable_error_response = JObject [(ascii ''error'', unprintable_error)]"

text \<open>A collaborator set-up in which every message is delivered, the predictor runs
  into the timeout and the table answers; a message with a text from user 7 in chat 100;
  a stored experiment of that user with both actual values; and worlds with a session of
  that user.\<close>

definition text_message :: "jsstring \<Rightarrow> message" where
  "text_message t = \<lparr> chat_id = 100, from_id = 7, msg_text = Some t \<rparr>"

definition reliable :: env where
  "reliable = \<lparr> delivers = (\<lambda>r. True), predictor = (\<lambda>ps. TimerFired), create_result = None,
                find_fails = False, save_fails = False, displayable = (\<lambda>x. True) \<rparr>"

definition measured :: experiment_row where
  "measured = \<lparr> experimentId = ascii ''e1'', userId = 7,
                parameters = \<lparr> euConcentration = Fin 1, phenanthrolineConcentration = Fin 1,
                  ligandConcentration = Fin 3, ligandType = Fin 2, phBsa = Fin 11,
                  additionVolume = Fin 500, additionTime = Fin 30, additionRate = Fin 16 \<rparr>,
                predictedSize = Some (JNumber (Fin 120)),
                predictedPdI = Some (JNumber (Fin (1 / 8))),
                actualSize = Some (Fin 125), actualPdI = Some (Fin (1 / 4)) \<rparr>"

definition no_sessions :: world where
  "no_sessions = \<lparr> predictionState = (\<lambda>u. None), addResultState = (\<lambda>u. None),
                   experiments = [ascii ''e1'' \<mapsto> measured] \<rparr>"

definition predicting :: world where
  "predicting = no_sessions\<lparr> predictionState := [7 \<mapsto> AwaitingParameters] \<rparr>"

definition entering :: "add_result_state \<Rightarrow> jsnum option \<Rightarrow> world" where
  "entering st sz =
     no_sessions\<lparr> addResultState :=
       [7 \<mapsto> \<lparr> state = st, session_experimentId = ascii ''e1'',
                 session_actualSize = sz \<rparr>] \<rparr>"

text \<open>The confirmation word as the overwrite prompt spells it (capital De, small a), the
  same word in capitals, and a world in which user 7 is about to enter the PdI.\<close>

definition prompted_word :: jsstring where
  "prompted_word = [1044, 1072]"

definition upper_case_word :: jsstring where
  "upper_case_word = [1044, 1040]"

definition awaiting_pdi :: world where
  "awaiting_pdi = entering AwaitingActualPdI (Some (Fin 125))"

section \<open>Facts about numbers and parsing\<close>

lemma not_lt_ge: "\<not> isNaN x \<Longrightarrow> \<not> js_lt x (Fin c) \<Longrightarrow> js_ge x (Fin c)"
  by (simp add: isNaN_def js_ge_def js_le_def)

lemma not_gt_le: "\<not> isNaN x \<Longrightarrow> \<not> js_gt x (Fin c) \<Longrightarrow> js_le x (Fin c)"
  by (simp add: isNaN_def js_gt_def js_le_def)

lemma not_le_gt: "\<not> isNaN x \<Longrightarrow> \<not> js_le x (Fin c) \<Longrightarrow> js_gt x (Fin c)"
  by (simp add: isNaN_def js_gt_def js_le_def)

lemma not_gt_iff: "(isNaN x \<or> js_le x (Fin c)) \<longleftrightarrow> \<not> js_gt x (Fin c)"
  by (auto simp add: isNaN_def js_gt_def js_le_def js_lt_def)

lemma round_half_even_of_int: "round_half_even (of_int z) = z"
  by (simp add: round_half_even_def)

lemma round_mag_of_int:
  assumes "0 \<le> n" and "round_mag (of_int n) = Some r"
  shows "of_int \<lfloor>r\<rfloor> = r"
proof (cases "n = 0")
  case True
  with assms show ?thesis by (simp add: round_mag_def)
next
  case False
  with assms have pos: "0 < n" by simp
  then have b: "1 \<le> bitlen n"
    using bitlen_nonneg [of n] bitlen_eq_zero_iff [of n] by linarith
  from pos have q1: "(1::rat) \<le> of_int n"
    by simp
  have fl: "floor_log2 (of_int n) = bitlen n - 1"
    using q1 by (simp add: floor_log2_def)
  define e where "e = bitlen n - 1"
  have e0: "0 \<le> e" using b by (simp add: e_def)
  have mx: "max (floor_log2 (of_int n)) (- 1022) = e"
    using e0 by (simp add: fl e_def)
  define u where "u = pow2 (e - 52)"
  have r: "r = of_int (round_half_even (of_int n / u)) * u"
    using assms(2) pos by (simp add: round_mag_def mx Let_def u_def split: if_splits)
  show ?thesis
  proof (cases "52 \<le> e")
    case True
    then have "u = of_int (2 ^ nat (e - 52))"
      by (simp add: u_def pow2_def)
    then have "r = of_int (round_half_even (of_int n / u) * 2 ^ nat (e - 52))"
      using r by simp
    then show ?thesis by (metis floor_of_int)
  next
    case False
    then have u: "u = 1 / 2 ^ nat (52 - e)"
      by (simp add: u_def pow2_def) 
    then have "of_int n / u = of_int (n * 2 ^ nat (52 - e))"
      by simp
    then have "round_half_even (of_int n / u) = n * 2 ^ nat (52 - e)"
      using round_half_even_of_int by metis
    then have "r = of_int n"
      using r u by simp
    then show ?thesis by simp
  qed
qed

lemma to_number_of_int:
  assumes "0 \<le> n"
  shows "is_integral (to_number neg (of_int n)) \<or> is_inf (to_number neg (of_int n))"
proof (cases "round_mag (of_int n)")
  case None
  then show ?thesis by (simp add: to_number_def signed_inf_def is_inf_def)
next
  case (Some r)
  from round_mag_of_int [OF assms Some] obtain z :: int where z: "r = of_int z"
    by metis
  have "of_int \<lfloor>r\<rfloor> = r" "of_int \<lfloor>- r\<rfloor> = - r"
    unfolding z by (simp_all del: of_int_minus add: of_int_minus [symmetric])
  with Some show ?thesis
    by (simp add: to_number_def signed_zero_def is_integral_def)
qed

lemma digits_value_nonneg_aux:
  "0 \<le> a \<Longrightarrow> \<forall>c\<in>set ds. is_digit c \<Longrightarrow> 0 \<le> foldl (\<lambda>a c. 10 * a + (int c - 48)) a ds"
  by (induction ds arbitrary: a) (auto simp: is_digit_def)

lemma digits_value_nonneg: "0 \<le> digits_value (takeWhile is_digit v)"
  unfolding digits_value_def
  by (rule digits_value_nonneg_aux) (auto dest: set_takeWhileD)

lemma hex_value_nonneg_aux:
  "0 \<le> a \<Longrightarrow> 0 \<le> foldl (\<lambda>a c. 16 * a + int (hex_digit_value c)) a ds"
  by (induction ds arbitrary: a) auto

lemma hex_value_nonneg: "0 \<le> hex_value ds"
  unfolding hex_value_def by (rule hex_value_nonneg_aux) simp

lemma parseInt_cases:
  "isNaN (parseInt s) \<or> is_inf (parseInt s) \<or> is_integral (parseInt s)"
proof (cases "scan_int s")
  case NoLiteral
  then show ?thesis by (simp add: parseInt_def literal_value_def isNaN_def)
next
  case (InfinityLiteral x)
  then show ?thesis by (simp add: scan_int_def Let_def split: if_splits)
next
  case (DecimalLiteral neg m k)
  then have "k = 0" and "0 \<le> m"
    by (auto simp add: scan_int_def Let_def digits_value_nonneg hex_value_nonneg split: if_splits)
  with DecimalLiteral to_number_of_int [of m neg] show ?thesis
    by (auto simp add: parseInt_def literal_value_def pow10_def)
qed

lemma integral_in_range:
  assumes "\<not> isNaN x" "\<not> js_lt x (Fin a)" "\<not> js_gt x (Fin b)"
    and "isNaN x \<or> is_inf x \<or> is_integral x"
  shows "is_integral x \<and> js_ge x (Fin a) \<and> js_le x (Fin b)"
  using assms
  by (auto simp add: isNaN_def is_inf_def js_ge_def js_le_def js_gt_def js_lt_def)

lemma param_at_nth: "i < length ts \<Longrightarrow> param_at ts i = ts ! i"
  by (simp add: param_at_def)

subsection \<open>Evaluating the parsers on the examples\<close>

lemma floor_rat_numeral: "\<lfloor>(numeral a :: rat) / numeral b\<rfloor> = numeral a div numeral b"
  using floor_divide_of_int_eq [of "numeral a" "numeral b", where ?'a = rat] by simp

lemma ceiling_rat_numeral: "\<lceil>(numeral a :: rat) / numeral b\<rceil> = - (- numeral a div numeral b)"
  using ceiling_divide_eq_div [of "numeral a" "numeral b", where ?'a = rat] by simp

lemmas scan_defs = parseFloat_def parseInt_def scan_float_def scan_int_def trimStart_def trim_def
  is_ws_def ascii_def has_minus_def strip_sign_def is_sign_def is_digit_def is_hex_digit_def
  hex_digit_value_def digits_value_def hex_value_def exponent_part_def Let_def

lemmas num_defs = literal_value_def to_number_def round_mag_def floor_log2_def
  round_half_even_def pow2_def pow10_def signed_inf_def signed_zero_def Let_def
  js_div_def is_inf_def is_zero_def sign_neg_def magnitude_def compute_bitlen
  floor_rat_numeral ceiling_rat_numeral

lemmas cmp_defs = isNaN_def js_lt_def js_le_def js_gt_def js_ge_def

lemma parseFloat_1: "parseFloat (ascii ''1'') = Fin 1"
  by (simp add: scan_defs) (simp add: num_defs)
lemma parseFloat_2: "parseFloat (ascii ''2'') = Fin 2"
  by (simp add: scan_defs) (simp add: num_defs)
lemma parseFloat_3: "parseFloat (ascii ''3'') = Fin 3"
  by (simp add: scan_defs) (simp add: num_defs)
lemma parseFloat_6: "parseFloat (ascii ''6'') = Fin 6"
  by (simp add: scan_defs) (simp add: num_defs)
lemma parseFloat_10: "parseFloat (ascii ''10'') = Fin 10"
  by (simp add: scan_defs) (simp add: num_defs)
lemma parseFloat_30: "parseFloat (ascii ''30'') = Fin 30"
  by (simp add: scan_defs) (simp add: num_defs)
lemma parseFloat_34: "parseFloat (ascii ''34'') = Fin 34"
  by (simp add: scan_defs) (simp add: num_defs)
lemma parseFloat_340: "parseFloat (ascii ''340'') = Fin 340"
  by (simp add: scan_defs) (simp add: num_defs)
lemma parseFloat_500: "parseFloat (ascii ''500'') = Fin 500"
  by (simp add: scan_defs) (simp add: num_defs)
lemma parseInt_1: "parseInt (ascii ''1'') = Fin 1"
  by (simp add: scan_defs) (simp add: num_defs)
lemma parseInt_2: "parseInt (ascii ''2'') = Fin 2"
  by (simp add: scan_defs) (simp add: num_defs)
lemma parseInt_9: "parseInt (ascii ''9'') = Fin 9"
  by (simp add: scan_defs) (simp add: num_defs)
lemma parseInt_11: "parseInt (ascii ''11'') = Fin 11"
  by (simp add: scan_defs) (simp add: num_defs)
lemma parseInt_9_5: "parseInt (ascii ''9.5'') = Fin 9"
  by (simp add: scan_defs) (simp add: num_defs)
lemma js_div_500_30: "js_div (Fin 500) (Fin 30) = Fin (4691249611844267 / 281474976710656)"
  by (simp add: num_defs)

lemmas parse_examples = parseFloat_1 parseFloat_2 parseFloat_3 parseFloat_6 parseFloat_10
  parseFloat_30 parseFloat_34 parseFloat_340 parseFloat_500 parseInt_1 parseInt_2 parseInt_9
  parseInt_11 parseInt_9_5 js_div_500_30

lemma example7_valid: "validateParameters example7 = Valid"
  by (simp add: validateParameters_def example7_def parse_examples cmp_defs)

lemma example8_valid: "validateParameters example8 = Valid"
  by (simp add: validateParameters_def example8_def parse_examples cmp_defs)

lemma example7_record:
  "convertParametersToObject example7 =
     \<lparr> euConcentration = Fin 1, phenanthrolineConcentration = Fin 1,
       ligandConcentration = Fin 3, ligandType = Fin 2, phBsa = Fin 11,
       additionVolume = Fin 500, additionTime = Fin 30,
       additionRate = Fin (4691249611844267 / 281474976710656) \<rparr>"
  by (simp add: convertParametersToObject_def param_at_def example7_def parse_examples)

lemma example8_record:
  "convertParametersToObject example8 =
     \<lparr> euConcentration = Fin 2, phenanthrolineConcentration = Fin 2,
       ligandConcentration = Fin 6, ligandType = Fin 1, phBsa = Fin 9,
       additionVolume = Fin 340, additionTime = Fin 34,
       additionRate = Fin 10 \<rparr>"
  by (simp add: convertParametersToObject_def param_at_def example8_def parse_examples)

lemmas string_defs = tokens_def split_ws_def trim_def trimStart_def is_ws_def ascii_def
  toLowerCase_def lower_unit_def free_text_def

lemma tokens_abc: "tokens (ascii ''abc'') = [ascii ''abc'']"
  by (simp add: string_defs)

lemma tokens_example7: "tokens (ascii ''1 1 3 2 11 500 30'') = example7"
  by (simp add: string_defs example7_def)

lemma abc_invalid: "validateParameters (tokens (ascii ''abc'')) = Invalid (ParameterCount 1)"
  by (simp add: tokens_abc validateParameters_def)

lemma free_text_examples:
  "free_text (ascii ''abc'')" "free_text (ascii ''1 1 3 2 11 500 30'')"
  "free_text (ascii ''125'')" "free_text (ascii ''-1'')"
  by (simp_all add: free_text_def ascii_def)

lemma parseFloat_abc: "parseFloat (trim (ascii ''abc'')) = NaN"
  by (simp add: scan_defs) (simp add: num_defs)

lemma parseFloat_125: "parseFloat (trim (ascii ''125'')) = Fin 125"
  by (simp add: scan_defs) (simp add: num_defs)

lemma parseFloat_minus_1: "parseFloat (trim (ascii ''-1'')) = Fin (- 1)"
  by (simp add: scan_defs) (simp add: num_defs)

subsection \<open>Free text\<close>

text \<open>A text the router passes on is not empty and is not the cancel command.\<close>

lemma lower_unit_slash: "lower_unit c = 47 \<Longrightarrow> c = 47"
  by (simp add: lower_unit_def split: if_splits)

lemma free_text_not_cancel:
  assumes "free_text t"
  shows "t \<noteq> [] \<and> toLowerCase t \<noteq> ascii ''/cancel''"
proof (cases t)
  case Nil
  with assms show ?thesis by (simp add: free_text_def)
next
  case (Cons c cs)
  with assms have "c \<noteq> 47" by (simp add: free_text_def)
  then have "lower_unit c \<noteq> 47" using lower_unit_slash by blast
  with Cons show ?thesis by (auto simp add: toLowerCase_def ascii_def)
qed

lemma cancel_not_free_text: "toLowerCase t = ascii ''/cancel'' \<Longrightarrow> \<not> free_text t"
  using free_text_not_cancel by blast

lemma confirm_word_not_cancel: "toLowerCase t = confirm_word \<Longrightarrow> toLowerCase t \<noteq> ascii ''/cancel''"
  by (simp add: confirm_word_def ascii_def)

lemma findOne_measured: "findOne (entering st sz) (ascii ''e1'') 7 = Some measured"
  by (simp add: findOne_def entering_def no_sessions_def measured_def)

lemma findOne_no_sessions: "findOne no_sessions (ascii ''e1'') 7 = Some measured"
  by (simp add: findOne_def no_sessions_def measured_def)

section \<open>The parameter count\<close>

text \<open>
  C5. For every token sequence whose length is neither 7 nor 8 the validator fails with
  the parameter-count error, which reports the length it found; and for no sequence of
  length 7 or 8 does it fail with a parameter-count error.
\<close>

theorem validateParameters_count:
  "(length ts \<noteq> 7 \<and> length ts \<noteq> 8 \<longrightarrow>
      validateParameters ts = Invalid (ParameterCount (length ts)))
   \<and> (length ts = 7 \<or> length ts = 8 \<longrightarrow>
      (\<forall>n. validateParameters ts \<noteq> Invalid (ParameterCount n)))"
proof (intro conjI impI)
  assume "length ts \<noteq> 7 \<and> length ts \<noteq> 8"
  then have "length ts < 7 \<or> length ts > 8" by arith
  then show "validateParameters ts = Invalid (ParameterCount (length ts))"
    by (simp add: validateParameters_def)
next
  assume "length ts = 7 \<or> length ts = 8"
  then have "\<not> (length ts < 7 \<or> length ts > 8)" by arith
  then show "\<forall>n. validateParameters ts \<noteq> Invalid (ParameterCount n)"
    by (simp add: validateParameters_def Let_def)
qed

theorem validateParameters_count_witness:
  "validateParameters [] = Invalid (ParameterCount 0)
   \<and> (\<forall>n. validateParameters example7 \<noteq> Invalid (ParameterCount n))"
  using validateParameters_count [of "[]"] validateParameters_count [of example7]
  by (simp add: example7_def)

section \<open>Out-of-range and non-integer fields\<close>

text \<open>
  With at least 7 and at most 8 tokens, the validator rejects whenever the number read
  from a token is NaN or outside the range of its field. What is read from the ligand
  type and pH tokens is what \<open>parseInt\<close> reads.
\<close>

lemma validateParameters_rejects:
  assumes "length ts = 7 \<or> length ts = 8"
    and "isNaN (parseFloat (ts ! 0)) \<or> js_lt (parseFloat (ts ! 0)) (Fin 0)
       \<or> isNaN (parseFloat (ts ! 1)) \<or> js_lt (parseFloat (ts ! 1)) (Fin 0)
       \<or> isNaN (parseFloat (ts ! 2)) \<or> js_lt (parseFloat (ts ! 2)) (Fin 0)
       \<or> isNaN (parseInt (ts ! 3)) \<or> js_lt (parseInt (ts ! 3)) (Fin 0)
       \<or> js_gt (parseInt (ts ! 3)) (Fin 3)
       \<or> isNaN (parseInt (ts ! 4)) \<or> js_lt (parseInt (ts ! 4)) (Fin 7)
       \<or> js_gt (parseInt (ts ! 4)) (Fin 11)
       \<or> isNaN (parseFloat (ts ! 5)) \<or> js_le (parseFloat (ts ! 5)) (Fin 0)
       \<or> isNaN (parseFloat (ts ! 6)) \<or> js_le (parseFloat (ts ! 6)) (Fin 0)
       \<or> isNaN (additionRate (convertParametersToObject ts))
       \<or> js_le (additionRate (convertParametersToObject ts)) (Fin 0)"
  shows "validateParameters ts \<noteq> Valid"
proof
  assume v: "validateParameters ts = Valid"
  from assms(1) have at: "param_at ts 5 = ts ! 5" "param_at ts 6 = ts ! 6"
    "length ts = 8 \<Longrightarrow> param_at ts 7 = ts ! 7"
    by (auto simp add: param_at_def)
  have rate: "additionRate (convertParametersToObject ts)
      = (if length ts = 8 then parseFloat (ts ! 7)
         else js_div (parseFloat (ts ! 5)) (parseFloat (ts ! 6)))"
    using at by (simp add: convertParametersToObject_def Let_def)
  from v assms(2) show False
    unfolding rate
    by (simp add: validateParameters_def Let_def split: if_splits)
qed

text \<open>
  C6. The specification counts a pH or ligand-type token that is not an integer as outside the
  allowed set, as the validator's own message for the pH does (it asks for an integer
  from 7 to 11). On the line \<open>1 1 3 2 9.5 500 30\<close> the pH token is \<open>9.5\<close>; \<open>parseInt\<close> reads
  the 9 and ignores the rest, so the validator accepts the line and the record built from
  it has pH 9.
\<close>

theorem fractional_ph_accepted:
  "validateParameters fractional_ph = Valid
   \<and> phBsa (convertParametersToObject fractional_ph) = Fin 9"
  by (simp add: validateParameters_def convertParametersToObject_def param_at_def
      fractional_ph_def parse_examples cmp_defs)

section \<open>The addition rate\<close>

text \<open>
  C7. For every 7-token input (valid or not) the addition rate of the constructed
  record is the quotient, by the \<open>/\<close> operator, of its addition volume and its addition
  time; for every 8-token input it is what \<open>parseFloat\<close> reads from the eighth token,
  whatever volume and time are.
\<close>

theorem addition_rate_source:
  "(length ts = 7 \<longrightarrow>
      additionRate (convertParametersToObject ts)
        = js_div (additionVolume (convertParametersToObject ts))
                 (additionTime (convertParametersToObject ts)))
   \<and> (length ts = 8 \<longrightarrow>
      additionRate (convertParametersToObject ts) = parseFloat (ts ! 7))"
  by (simp add: convertParametersToObject_def Let_def param_at_def)

theorem addition_rate_source_witness:
  "length example7 = 7
   \<and> additionRate (convertParametersToObject example7)
       = js_div (additionVolume (convertParametersToObject example7))
                (additionTime (convertParametersToObject example7))
   \<and> additionRate (convertParametersToObject example7)
       = Fin (4691249611844267 / 281474976710656)
   \<and> length example8 = 8
   \<and> additionRate (convertParametersToObject example8) = parseFloat (example8 ! 7)
   \<and> additionRate (convertParametersToObject example8) = Fin 10"
  using addition_rate_source [of example7] addition_rate_source [of example8]
  by (simp add: example7_record example8_record) (simp add: example7_def example8_def)

text \<open>On a valid 7-token input whose volume and time are finite, the quotient is the
  quotient of the two rationals, rounded to binary64 once.\<close>

lemma valid_rate_rounded_quotient:
  assumes "length ts = 7" and "validateParameters ts = Valid"
    and "parseFloat (ts ! 5) = Fin a" and "parseFloat (ts ! 6) = Fin b"
  shows "0 < a \<and> 0 < b
         \<and> additionRate (convertParametersToObject ts) = to_number False (a / b)"
proof -
  from assms have "\<not> js_le (Fin a) (Fin 0)" "\<not> js_le (Fin b) (Fin 0)"
    by (simp_all add: validateParameters_def Let_def split: if_splits)
  then have pos: "0 < a" "0 < b"
    by (simp_all add: js_le_def js_lt_def not_le)
  then have "js_div (Fin a) (Fin b) = to_number False (a / b)"
    by (simp add: js_div_def is_inf_def is_zero_def sign_neg_def magnitude_def)
  with assms pos show ?thesis
    by (simp add: convertParametersToObject_def Let_def param_at_def)
qed

section \<open>Accepted inputs give records within range\<close>

text \<open>
  C8. For every token array the validator accepts, the record that
  \<open>convertParametersToObject\<close> builds from the same array satisfies all eight range
  constraints at once: both functions read each position with the same parser.
\<close>

theorem accepted_record_within_ranges:
  assumes "validateParameters ts = Valid"
  shows "within_ranges (convertParametersToObject ts)"
proof -
  from assms have len: "7 \<le> length ts" "length ts \<le> 8"
    by (auto simp add: validateParameters_def split: if_splits)
  then have at: "\<And>i. i < 7 \<Longrightarrow> param_at ts i = ts ! i"
    "length ts = 8 \<Longrightarrow> param_at ts 7 = ts ! 7"
    by (simp_all add: param_at_def)
  let ?rate = "if length ts = 8 then parseFloat (ts ! 7)
               else js_div (parseFloat (ts ! 5)) (parseFloat (ts ! 6))"
  from assms len have c:
    "\<not> isNaN (parseFloat (ts ! 0))" "\<not> js_lt (parseFloat (ts ! 0)) (Fin 0)"
    "\<not> isNaN (parseFloat (ts ! 1))" "\<not> js_lt (parseFloat (ts ! 1)) (Fin 0)"
    "\<not> isNaN (parseFloat (ts ! 2))" "\<not> js_lt (parseFloat (ts ! 2)) (Fin 0)"
    "\<not> isNaN (parseInt (ts ! 3))" "\<not> js_lt (parseInt (ts ! 3)) (Fin 0)"
    "\<not> js_gt (parseInt (ts ! 3)) (Fin 3)"
    "\<not> isNaN (parseInt (ts ! 4))" "\<not> js_lt (parseInt (ts ! 4)) (Fin 7)"
    "\<not> js_gt (parseInt (ts ! 4)) (Fin 11)"
    "\<not> isNaN (parseFloat (ts ! 5))" "\<not> js_le (parseFloat (ts ! 5)) (Fin 0)"
    "\<not> isNaN (parseFloat (ts ! 6))" "\<not> js_le (parseFloat (ts ! 6)) (Fin 0)"
    "\<not> isNaN ?rate" "\<not> js_le ?rate (Fin 0)"
    by (simp_all add: validateParameters_def Let_def split: if_splits)
  have r: "convertParametersToObject ts =
      \<lparr> euConcentration = parseFloat (ts ! 0),
        phenanthrolineConcentration = parseFloat (ts ! 1),
        ligandConcentration = parseFloat (ts ! 2),
        ligandType = parseInt (ts ! 3),
        phBsa = parseInt (ts ! 4),
        additionVolume = parseFloat (ts ! 5),
        additionTime = parseFloat (ts ! 6),
        additionRate = ?rate \<rparr>"
    using at by (simp add: convertParametersToObject_def Let_def)
  show ?thesis
    unfolding r within_ranges_def
    using c integral_in_range [OF c(7) c(8) c(9) parseInt_cases]
      integral_in_range [OF c(10) c(11) c(12) parseInt_cases]
    by (simp add: not_lt_ge not_le_gt)
qed

theorem accepted_record_within_ranges_witness:
  "validateParameters example7 = Valid \<and> within_ranges (convertParametersToObject example7)"
  using accepted_record_within_ranges [OF example7_valid] example7_valid by simp

section \<open>Responses of the predictor\<close>

text \<open>
  C9 as stated fails: it has the gateway reject a response that lacks the required
  fields. The response \<open>{}\<close> is valid JSON with none of \<open>size\<close>, \<open>pdi\<close>, \<open>sizeConfidence\<close>,
  \<open>pdiConfidence\<close>, and the gateway resolves with it.
\<close>

theorem empty_object_resolves:
  "property (JObject []) (ascii ''size'') = None
   \<and> property (JObject []) (ascii ''pdi'') = None
   \<and> property (JObject []) (ascii ''sizeConfidence'') = None
   \<and> property (JObject []) (ascii ''pdiConfidence'') = None
   \<and> makeModelPrediction (Closed (Some 0) (Some (JObject [])) []) = Inr (JObject [])"
  by (simp add: makeModelPrediction_def property_def)

text \<open>
  C9, amended. When the predictor exits with code 0: the gateway fails with the invalid
  response error if the output is not valid JSON (or is the JSON value \<open>null\<close>), and also
  if the parsed value has a truthy \<open>error\<close> property that cannot be converted to a string;
  it fails with the model error, carrying the value of the \<open>error\<close> property, whenever the
  parsed value has a truthy \<open>error\<close> property that can be converted to a string; and
  otherwise (no \<open>error\<close> property, or a falsy one such as the empty string) it resolves
  with the parsed value, whatever fields it has.
\<close>

theorem makeModelPrediction_exit_zero:
  "(parsed = None \<or> parsed = Some JNull \<longrightarrow>
      makeModelPrediction (Closed (Some 0) parsed errorOutput) = Inl InvalidResponse)
   \<and> (\<forall>result. parsed = Some result \<and> result \<noteq> JNull \<longrightarrow>
        (\<forall>err. property result (ascii ''error'') = Some err \<and> truthy err
               \<and> stringifiable err \<longrightarrow>
           makeModelPrediction (Closed (Some 0) parsed errorOutput) = Inl (ModelError err))
        \<and> (\<forall>err. property result (ascii ''error'') = Some err \<and> truthy err
               \<and> \<not> stringifiable err \<longrightarrow>
           makeModelPrediction (Closed (Some 0) parsed errorOutput) = Inl InvalidResponse)
        \<and> ((\<forall>err. property result (ascii ''error'') = Some err \<longrightarrow> \<not> truthy err) \<longrightarrow>
           makeModelPrediction (Closed (Some 0) parsed errorOutput) = Inr result))"
  by (cases parsed) (auto simp add: makeModelPrediction_def split: json.splits option.splits)

theorem makeModelPrediction_exit_zero_witness:
  "makeModelPrediction (Closed (Some 0) None []) = Inl InvalidResponse
   \<and> makeModelPrediction (Closed (Some 0) (Some model_error_response) [])
       = Inl (ModelError (JString (ascii ''no model'')))
   \<and> truthy unprintable_error \<and> \<not> stringifiable unprintable_error
   \<and> makeModelPrediction (Closed (Some 0) (Some unprintable_error_response) [])
       = Inl InvalidResponse
   \<and> makeModelPrediction (Closed (Some 0) (Some empty_error_response) [])
       = Inr empty_error_response"
  using makeModelPrediction_exit_zero [of None "[]"]
    makeModelPrediction_exit_zero [of "Some model_error_response" "[]"]
    makeModelPrediction_exit_zero [of "Some unprintable_error_response" "[]"]
    makeModelPrediction_exit_zero [of "Some empty_error_response" "[]"]
  by (simp add: model_error_response_def empty_error_response_def
      unprintable_error_response_def unprintable_error_def property_def truthy_def ascii_def)

section \<open>Failures in the prediction flow\<close>

text \<open>
  C1. In the prediction flow, take a free-text message (a text that is not empty and does
  not begin with a slash: what the router passes on) from a user whose session is
  AwaitingParameters. When its tokens fail validation and the error message is delivered,
  that message is the only reply and the state is unchanged, so the session remains.
  When validation succeeds, the processing message is delivered and the gateway call
  fails, the generic failure message follows and the user's session is deleted.
\<close>

theorem prediction_failures:
  assumes "predictionState w (from_id msg) = Some AwaitingParameters"
    and "msg_text msg = Some t" and "free_text t"
  shows "(validateParameters (tokens t) = Invalid err \<and> delivers e (ParameterErrorReply err) \<longrightarrow>
            handlePredictionResponse e msg w
              = \<lparr> sent = [(chat_id msg, ParameterErrorReply err)], final = w, rejected = False \<rparr>)
       \<and> (validateParameters (tokens t) = Valid \<and> delivers e ProcessingReply
            \<and> makeModelPrediction (predictor e (convertParametersToObject (tokens t))) = Inl failure
            \<and> delivers e PredictionFailedReply \<longrightarrow>
            sent (handlePredictionResponse e msg w)
              = [(chat_id msg, ProcessingReply), (chat_id msg, PredictionFailedReply)]
            \<and> final (handlePredictionResponse e msg w) = clear_prediction (from_id msg) w
            \<and> predictionState (final (handlePredictionResponse e msg w)) (from_id msg) = None
            \<and> \<not> rejected (handlePredictionResponse e msg w))"
proof -
  from free_text_not_cancel [OF assms(3)]
  have t: "t \<noteq> []" "toLowerCase t \<noteq> ascii ''/cancel''" by simp_all
  show ?thesis
    using assms(1,2) t
    by (simp add: handlePredictionResponse_def Let_def deliver_def recover_def
        clear_prediction_def)
qed

theorem prediction_failures_witness:
  "handlePredictionResponse reliable (text_message (ascii ''abc'')) predicting
     = \<lparr> sent = [(100, ParameterErrorReply (ParameterCount 1))], final = predicting,
         rejected = False \<rparr>
   \<and> sent (handlePredictionResponse reliable (text_message (ascii ''1 1 3 2 11 500 30''))
        predicting) = [(100, ProcessingReply), (100, PredictionFailedReply)]
   \<and> predictionState (final (handlePredictionResponse reliable
        (text_message (ascii ''1 1 3 2 11 500 30'')) predicting)) 7 = None"
proof -
  have s: "predictionState predicting (from_id (text_message t)) = Some AwaitingParameters"
    and m: "msg_text (text_message t) = Some t" for t
    by (simp_all add: predicting_def text_message_def)
  have g: "makeModelPrediction (predictor reliable ps) = Inl PredictionTimeout" for ps
    by (simp add: reliable_def makeModelPrediction_def)
  have d: "delivers reliable r" for r
    by (simp add: reliable_def)
  from prediction_failures [OF s m free_text_examples(1),
      where err = "ParameterCount 1" and e = reliable] abc_invalid d
  have "handlePredictionResponse reliable (text_message (ascii ''abc'')) predicting
     = \<lparr> sent = [(chat_id (text_message (ascii ''abc'')), ParameterErrorReply (ParameterCount 1))],
         final = predicting, rejected = False \<rparr>"
    by blast
  moreover
  from prediction_failures [OF s m free_text_examples(2),
      where e = reliable and failure = PredictionTimeout] example7_valid g d
  have "sent (handlePredictionResponse reliable (text_message (ascii ''1 1 3 2 11 500 30''))
        predicting)
      = [(chat_id (text_message (ascii ''1 1 3 2 11 500 30'')), ProcessingReply),
         (chat_id (text_message (ascii ''1 1 3 2 11 500 30'')), PredictionFailedReply)]
    \<and> predictionState (final (handlePredictionResponse reliable
        (text_message (ascii ''1 1 3 2 11 500 30'')) predicting))
        (from_id (text_message (ascii ''1 1 3 2 11 500 30''))) = None"
    by (simp add: tokens_example7 clear_prediction_def)
  ultimately show ?thesis
    by (simp add: text_message_def)
qed

section \<open>Entering the actual values\<close>

text \<open>
  C2. In the result-entry flow, take a free-text message from a user with a session. In
  AwaitingActualSize, a text that does not parse as a number greater than 0 is answered
  by the re-prompt and leaves the state unchanged; a text that parses as a number greater
  than 0 stores that number in the session and moves it to AwaitingActualPdI. In
  AwaitingActualPdI, a text that does not parse as a number at least 0 is answered by the
  re-prompt and leaves the state unchanged. (Each reply is taken as delivered.)
\<close>

theorem actual_value_entry:
  assumes "addResultState w (from_id msg) = Some s"
    and "msg_text msg = Some t" and "free_text t"
  shows "(state s = AwaitingActualSize \<and> \<not> js_gt (parseFloat (trim t)) (Fin 0)
            \<and> delivers e InvalidSizeReply \<longrightarrow>
            handleAddResultResponse e msg w
              = \<lparr> sent = [(chat_id msg, InvalidSizeReply)], final = w, rejected = False \<rparr>)
       \<and> (state s = AwaitingActualSize \<and> js_gt (parseFloat (trim t)) (Fin 0)
            \<and> delivers e (ActualPdIPrompt (parseFloat (trim t))) \<longrightarrow>
            handleAddResultResponse e msg w
              = \<lparr> sent = [(chat_id msg, ActualPdIPrompt (parseFloat (trim t)))],
                  final = set_add_result (from_id msg)
                            (s\<lparr> session_actualSize := Some (parseFloat (trim t)),
                                state := AwaitingActualPdI \<rparr>) w,
                  rejected = False \<rparr>)
       \<and> (state s = AwaitingActualPdI \<and> \<not> js_ge (parseFloat (trim t)) (Fin 0)
            \<and> delivers e InvalidPdIReply \<longrightarrow>
            handleAddResultResponse e msg w
              = \<lparr> sent = [(chat_id msg, InvalidPdIReply)], final = w, rejected = False \<rparr>)"
proof -
  from free_text_not_cancel [OF assms(3)]
  have t: "t \<noteq> []" "toLowerCase t \<noteq> ascii ''/cancel''" by simp_all
  have ge: "\<And>x. (isNaN x \<or> js_lt x (Fin 0)) \<longleftrightarrow> \<not> js_ge x (Fin 0)"
    by (auto simp add: isNaN_def js_ge_def js_le_def js_lt_def)
  show ?thesis
    using assms(1,2) t
    by (simp add: handleAddResultResponse_def Let_def deliver_def recover_def
        not_gt_iff ge)
qed

theorem actual_value_entry_witness:
  "handleAddResultResponse reliable (text_message (ascii ''abc''))
       (entering AwaitingActualSize None)
     = \<lparr> sent = [(100, InvalidSizeReply)], final = entering AwaitingActualSize None,
         rejected = False \<rparr>
   \<and> handleAddResultResponse reliable (text_message (ascii ''125''))
       (entering AwaitingActualSize None)
     = \<lparr> sent = [(100, ActualPdIPrompt (Fin 125))],
         final = entering AwaitingActualPdI (Some (Fin 125)), rejected = False \<rparr>
   \<and> handleAddResultResponse reliable (text_message (ascii ''-1''))
       (entering AwaitingActualPdI (Some (Fin 125)))
     = \<lparr> sent = [(100, InvalidPdIReply)], final = entering AwaitingActualPdI (Some (Fin 125)),
         rejected = False \<rparr>"
proof -
  let ?s = "\<lambda>st sz. \<lparr> state = st, session_experimentId = ascii ''e1'',
                        session_actualSize = sz \<rparr>"
  have s: "addResultState (entering st sz) (from_id (text_message t)) = Some (?s st sz)"
    and m: "msg_text (text_message t) = Some t" for st sz t
    by (simp_all add: entering_def text_message_def)
  have d: "delivers reliable r" for r
    by (simp add: reliable_def)
  have c: "\<not> js_gt NaN (Fin 0)" "js_gt (Fin 125) (Fin 0)" "\<not> js_ge (Fin (- 1)) (Fin 0)"
    by (simp_all add: cmp_defs)
  have u: "set_add_result 7 (?s AwaitingActualPdI (Some (Fin 125)))
             (entering AwaitingActualSize None) = entering AwaitingActualPdI (Some (Fin 125))"
    by (simp add: set_add_result_def entering_def)
  from actual_value_entry [OF s m free_text_examples(1), where e = reliable] d c
  have "handleAddResultResponse reliable (text_message (ascii ''abc''))
       (entering AwaitingActualSize None)
     = \<lparr> sent = [(chat_id (text_message (ascii ''abc'')), InvalidSizeReply)],
         final = entering AwaitingActualSize None, rejected = False \<rparr>"
    by (simp add: parseFloat_abc)
  moreover
  from actual_value_entry [OF s m free_text_examples(3), where e = reliable] d c
  have "handleAddResultResponse reliable (text_message (ascii ''125''))
       (entering AwaitingActualSize None)
     = \<lparr> sent = [(chat_id (text_message (ascii ''125'')), ActualPdIPrompt (Fin 125))],
         final = set_add_result (from_id (text_message (ascii ''125'')))
                   (?s AwaitingActualPdI (Some (Fin 125))) (entering AwaitingActualSize None),
         rejected = False \<rparr>"
    by (simp add: parseFloat_125)
  moreover
  from actual_value_entry [OF s m free_text_examples(4), where e = reliable] d c
  have "handleAddResultResponse reliable (text_message (ascii ''-1''))
       (entering AwaitingActualPdI (Some (Fin 125)))
     = \<lparr> sent = [(chat_id (text_message (ascii ''-1'')), InvalidPdIReply)],
         final = entering AwaitingActualPdI (Some (Fin 125)), rejected = False \<rparr>"
    by (simp add: parseFloat_minus_1)
  ultimately show ?thesis
    using u by (simp add: text_message_def)
qed

section \<open>Confirming an overwrite\<close>

text \<open>
  C3 as stated fails: it has every input other than the exact confirmation token clear
  the session. The handler compares the lower-cased text with the word, so the word in
  capitals, which is neither the word as prompted nor its lower-case form, is accepted
  and the session moves on to AwaitingActualSize.
\<close>

theorem upper_case_confirmation_accepted:
  "upper_case_word \<noteq> prompted_word \<and> upper_case_word \<noteq> confirm_word
   \<and> addResultState
         (final (handleAddResultResponse reliable (text_message upper_case_word)
                   (entering AwaitingOverwriteConfirmation None))) 7
       = Some \<lparr> state = AwaitingActualSize, session_experimentId = ascii ''e1'',
                 session_actualSize = None \<rparr>"
  by (simp add: upper_case_word_def prompted_word_def confirm_word_def
      handleAddResultResponse_def text_message_def entering_def no_sessions_def reliable_def
      toLowerCase_def lower_unit_def ascii_def findOne_def measured_def deliver_def
      set_add_result_def Let_def)

text \<open>
  C3, amended. When the result-entry flow is entered for an experiment of the user whose
  actual size and actual PdI are both populated (the query answers and the prompt is
  delivered), the session enters AwaitingOverwriteConfirmation. In that state no text
  handed to the controller changes the stored experiments; every text whose lower-case
  form is not the confirmation word clears the session; and a text whose lower-case form
  is the word (the comparison ignores case) moves the session to AwaitingActualSize, when
  the experiment is found, can be displayed and the prompt is delivered.
\<close>

theorem overwrite_confirmation:
  "(\<not> find_fails e \<and> findOne w eid (from_id msg) = Some x
      \<and> actualSize x \<noteq> None \<and> actualPdI x \<noteq> None \<and> delivers e OverwritePrompt \<longrightarrow>
      startAddResult e msg eid w
        = \<lparr> sent = [(chat_id msg, OverwritePrompt)],
            final = set_add_result (from_id msg)
                      \<lparr> state = AwaitingOverwriteConfirmation, session_experimentId = eid,
                        session_actualSize = None \<rparr> w,
            rejected = False \<rparr>)
   \<and> (addResultState w (from_id msg) = Some s \<and> state s = AwaitingOverwriteConfirmation
        \<and> msg_text msg = Some t \<and> t \<noteq> [] \<longrightarrow>
        experiments (final (handleAddResultResponse e msg w)) = experiments w
        \<and> (toLowerCase t \<noteq> confirm_word \<longrightarrow>
             addResultState (final (handleAddResultResponse e msg w)) (from_id msg) = None)
        \<and> (toLowerCase t = confirm_word \<and> \<not> find_fails e
             \<and> findOne w (session_experimentId s) (from_id msg) = Some x
             \<and> displayable e x \<and> delivers e (UpdateSizePrompt x) \<longrightarrow>
             addResultState (final (handleAddResultResponse e msg w)) (from_id msg)
               = Some (s\<lparr> state := AwaitingActualSize \<rparr>)))"
proof (intro conjI impI)
  assume "\<not> find_fails e \<and> findOne w eid (from_id msg) = Some x
      \<and> actualSize x \<noteq> None \<and> actualPdI x \<noteq> None \<and> delivers e OverwritePrompt"
  then show "startAddResult e msg eid w
        = \<lparr> sent = [(chat_id msg, OverwritePrompt)],
            final = set_add_result (from_id msg)
                      \<lparr> state = AwaitingOverwriteConfirmation, session_experimentId = eid,
                        session_actualSize = None \<rparr> w,
            rejected = False \<rparr>"
    by (auto simp add: startAddResult_def Let_def deliver_def)
next
  assume a: "addResultState w (from_id msg) = Some s \<and> state s = AwaitingOverwriteConfirmation
        \<and> msg_text msg = Some t \<and> t \<noteq> []"
  then show "experiments (final (handleAddResultResponse e msg w)) = experiments w"
    by (simp add: handleAddResultResponse_def Let_def deliver_def recover_def
        clear_add_result_def set_add_result_def split: option.splits)
  show "addResultState (final (handleAddResultResponse e msg w)) (from_id msg) = None"
    if "toLowerCase t \<noteq> confirm_word"
    using a that
    by (simp add: handleAddResultResponse_def Let_def deliver_def recover_def
        clear_add_result_def)
  show "addResultState (final (handleAddResultResponse e msg w)) (from_id msg)
               = Some (s\<lparr> state := AwaitingActualSize \<rparr>)"
    if "toLowerCase t = confirm_word \<and> \<not> find_fails e
             \<and> findOne w (session_experimentId s) (from_id msg) = Some x
             \<and> displayable e x \<and> delivers e (UpdateSizePrompt x)"
    using a that confirm_word_not_cancel [of t]
    by (simp add: handleAddResultResponse_def Let_def deliver_def set_add_result_def)
qed

theorem overwrite_confirmation_witness:
  "startAddResult reliable (text_message (ascii ''/add_result e1'')) (ascii ''e1'') no_sessions
     = \<lparr> sent = [(100, OverwritePrompt)], final = entering AwaitingOverwriteConfirmation None,
         rejected = False \<rparr>
   \<and> addResultState (final (handleAddResultResponse reliable (text_message (ascii ''no''))
        (entering AwaitingOverwriteConfirmation None))) 7 = None
   \<and> experiments (final (handleAddResultResponse reliable (text_message (ascii ''no''))
        (entering AwaitingOverwriteConfirmation None)))
       = experiments (entering AwaitingOverwriteConfirmation None)
   \<and> addResultState (final (handleAddResultResponse reliable (text_message confirm_word)
        (entering AwaitingOverwriteConfirmation None))) 7
       = Some \<lparr> state = AwaitingActualSize, session_experimentId = ascii ''e1'',
                 session_actualSize = None \<rparr>"
proof -
  let ?s = "\<lparr> state = AwaitingOverwriteConfirmation, session_experimentId = ascii ''e1'',
              session_actualSize = None \<rparr>"
  have d: "delivers reliable r" "\<not> find_fails reliable" "displayable reliable y" for r y
    by (simp_all add: reliable_def)
  have m: "actualSize measured \<noteq> None" "actualPdI measured \<noteq> None"
    by (simp_all add: measured_def)
  have u: "set_add_result 7 ?s no_sessions = entering AwaitingOverwriteConfirmation None"
    by (simp add: set_add_result_def entering_def no_sessions_def)
  have s: "addResultState (entering AwaitingOverwriteConfirmation None)
             (from_id (text_message t)) = Some ?s"
    and tm: "msg_text (text_message t) = Some t" "from_id (text_message t) = 7"
      "chat_id (text_message t) = 100" for t
    by (simp_all add: entering_def text_message_def)
  have no: "ascii ''no'' \<noteq> []" "toLowerCase (ascii ''no'') \<noteq> confirm_word"
    and yes: "confirm_word \<noteq> []" "toLowerCase confirm_word = confirm_word"
    by (simp_all add: ascii_def toLowerCase_def lower_unit_def confirm_word_def)
  note a = overwrite_confirmation [where e = reliable and w = no_sessions
      and msg = "text_message (ascii ''/add_result e1'')" and eid = "ascii ''e1''"
      and x = measured, THEN conjunct1, rule_format]
  note b = overwrite_confirmation [where e = reliable
      and w = "entering AwaitingOverwriteConfirmation None"
      and msg = "text_message (ascii ''no'')" and t = "ascii ''no''" and s = ?s,
      THEN conjunct2, rule_format]
  note c = overwrite_confirmation [where e = reliable
      and w = "entering AwaitingOverwriteConfirmation None"
      and msg = "text_message confirm_word" and t = confirm_word and s = ?s and x = measured,
      THEN conjunct2, rule_format]
  have "startAddResult reliable (text_message (ascii ''/add_result e1'')) (ascii ''e1'')
          no_sessions
     = \<lparr> sent = [(100, OverwritePrompt)], final = entering AwaitingOverwriteConfirmation None,
         rejected = False \<rparr>"
    using a d m findOne_no_sessions by (simp add: tm u)
  moreover have "addResultState (final (handleAddResultResponse reliable
        (text_message (ascii ''no'')) (entering AwaitingOverwriteConfirmation None))) 7 = None
   \<and> experiments (final (handleAddResultResponse reliable (text_message (ascii ''no''))
        (entering AwaitingOverwriteConfirmation None)))
       = experiments (entering AwaitingOverwriteConfirmation None)"
    using b s no by (simp add: tm)
  moreover have "addResultState (final (handleAddResultResponse reliable
        (text_message confirm_word) (entering AwaitingOverwriteConfirmation None))) 7
       = Some \<lparr> state = AwaitingActualSize, session_experimentId = ascii ''e1'',
                 session_actualSize = None \<rparr>"
    using c s yes d findOne_measured by (simp add: tm)
  ultimately show ?thesis by simp
qed

section \<open>The cancel command\<close>

text \<open>The response handler has a branch for the cancel command, which deletes the
  session, and it ignores a message from a user without a session; but the router does
  not pass a text that begins with a slash to it.\<close>

lemma on_message_ignores_cancel:
  assumes "msg_text msg = Some t" and "toLowerCase t = ascii ''/cancel''"
  shows "on_message e msg w = idle w"
  using assms cancel_not_free_text [of t] by (simp add: on_message_def)

lemma router_passes_free_text_only:
  assumes "\<And>t. msg_text msg = Some t \<Longrightarrow> \<not> free_text t"
  shows "on_message e msg w = idle w"
  using assms by (simp add: on_message_def split: option.splits)

lemma router_to_result_entry:
  assumes "msg_text msg = Some t" and "free_text t"
    and "predictionState w (from_id msg) = None"
  shows "on_message e msg w = handleAddResultResponse e msg w"
proof -
  have "handlePredictionResponse e msg w = idle w"
    using assms by (simp add: handlePredictionResponse_def Let_def)
  with assms show ?thesis
    by (simp add: on_message_def idle_def Let_def)
qed

lemma handler_cancel_clears:
  assumes "msg_text msg = Some t" and "toLowerCase t = ascii ''/cancel''"
  shows "addResultState (final (handleAddResultResponse e msg w)) (from_id msg) = None"
proof -
  from assms(2) have "t \<noteq> []" by (auto simp add: toLowerCase_def ascii_def)
  with assms show ?thesis
    by (simp add: handleAddResultResponse_def Let_def deliver_def recover_def idle_def
        clear_add_result_def split: option.splits)
qed

lemma handler_without_session:
  "addResultState w (from_id msg) = None \<Longrightarrow> handleAddResultResponse e msg w = idle w"
  by (simp add: handleAddResultResponse_def Let_def split: option.splits)

text \<open>
  C4. Sending \<open>/cancel\<close> while a result-entry session is in AwaitingActualPdI should clear
  the session, after which a plain text is ignored. In the code the message never
  reaches the handler's cancel branch: the router drops it, nothing is sent, and the
  session is still in AwaitingActualPdI; the plain text \<open>-1\<close> sent next is answered with
  the PdI re-prompt.
\<close>

theorem cancel_command_not_routed:
  "on_message reliable (text_message (ascii ''/cancel'')) awaiting_pdi
     = \<lparr> sent = [], final = awaiting_pdi, rejected = False \<rparr>
   \<and> addResultState awaiting_pdi 7
       = Some \<lparr> state = AwaitingActualPdI, session_experimentId = ascii ''e1'',
                 session_actualSize = Some (Fin 125) \<rparr>
   \<and> sent (on_message reliable (text_message (ascii ''-1'')) awaiting_pdi)
       = [(100, InvalidPdIReply)]"
proof -
  have "toLowerCase (ascii ''/cancel'') = ascii ''/cancel''"
    by (simp add: toLowerCase_def lower_unit_def ascii_def)
  then have "on_message reliable (text_message (ascii ''/cancel'')) awaiting_pdi
      = idle awaiting_pdi"
    by (intro on_message_ignores_cancel) (simp_all add: text_message_def)
  moreover have "handlePredictionResponse reliable (text_message (ascii ''-1'')) awaiting_pdi
      = idle awaiting_pdi"
    by (simp add: handlePredictionResponse_def Let_def text_message_def awaiting_pdi_def
        entering_def no_sessions_def ascii_def)
  moreover have "sent (handleAddResultResponse reliable (text_message (ascii ''-1''))
      awaiting_pdi) = [(100, InvalidPdIReply)]"
    by (simp add: handleAddResultResponse_def Let_def text_message_def awaiting_pdi_def
        entering_def no_sessions_def reliable_def deliver_def toLowerCase_def lower_unit_def
        parseFloat_minus_1 [unfolded ascii_def, simplified] ascii_def cmp_defs)
  ultimately show ?thesis
    using free_text_examples(4)
    by (simp add: on_message_def idle_def Let_def text_message_def awaiting_pdi_def
        entering_def)
qed

end
